theory Spec2Isabelle
  imports Complex_Main "HOL-Library.Word"
begin

unbundle bit_operations_syntax

section \<open>Numbers and status codes\<close>

text \<open>
  The adapter (\<^verbatim>\<open>ThorlabsKinesisTCubeServo.cpp\<close>) stores positions, limits and velocities
  in C++ \<^verbatim>\<open>double\<close> and \<^verbatim>\<open>float\<close> members. A floating-point value is modelled by what
  it denotes: a finite value is the real number it stands for, and the two infinities and
  NaN are values of their own (the two signed zeros are one value, \<open>Fin 0\<close>).
  Comparison of two floating-point values is exact in C++, so \<open>fp_less\<close> is the
  comparison of the denoted numbers, false as soon as one side is NaN.
\<close>

datatype fpval = Fin real | PInf | NInf | NaN

fun fp_less :: "fpval \<Rightarrow> fpval \<Rightarrow> bool" where
  "fp_less NaN y = False"
| "fp_less x NaN = False"
| "fp_less (Fin a) (Fin b) = (a < b)"
| "fp_less (Fin a) PInf = True"
| "fp_less (Fin a) NInf = False"
| "fp_less PInf y = False"
| "fp_less NInf (Fin b) = True"
| "fp_less NInf PInf = True"
| "fp_less NInf NInf = False"

definition fp_le :: "fpval \<Rightarrow> fpval \<Rightarrow> bool" where
  "fp_le x y = (x \<noteq> NaN \<and> y \<noteq> NaN \<and> (x = y \<or> fp_less x y))"

text \<open>
  Every operation that rounds (a conversion to \<^verbatim>\<open>float\<close>, an arithmetic operation in
  \<^verbatim>\<open>float\<close> or in \<^verbatim>\<open>double\<close>, the conversion of the vendor's \<^verbatim>\<open>int\<close> position to
  \<^verbatim>\<open>float\<close>) is a field of the record \<open>fpu\<close>, which the functions of the adapter take
  as their first argument: a theorem stated for every \<open>fpu\<close> holds whatever the rounding of
  the machine is.
\<close>

record fpu =
  narrow :: "fpval \<Rightarrow> fpval"            \<comment> \<open>\<^verbatim>\<open>double\<close> to \<^verbatim>\<open>float\<close>, as in an assignment to a \<^verbatim>\<open>float\<close> member\<close>
  fmul :: "fpval \<Rightarrow> fpval \<Rightarrow> fpval"     \<comment> \<open>\<^verbatim>\<open>float * float\<close>\<close>
  fdiv :: "fpval \<Rightarrow> fpval \<Rightarrow> fpval"     \<comment> \<open>\<^verbatim>\<open>float / float\<close>\<close>
  dmul :: "fpval \<Rightarrow> fpval \<Rightarrow> fpval"     \<comment> \<open>\<^verbatim>\<open>double * double\<close>\<close>
  ddiv :: "fpval \<Rightarrow> fpval \<Rightarrow> fpval"     \<comment> \<open>\<^verbatim>\<open>double / double\<close>\<close>
  i2f :: "int \<Rightarrow> fpval"                \<comment> \<open>\<^verbatim>\<open>int\<close> to \<^verbatim>\<open>float\<close>\<close>

text \<open>
  One instance, without rounding. It agrees with the machine on finite operands whose
  exact result is representable, and serves to evaluate the adapter at concrete inputs
  chosen that way.
\<close>

fun fp_times :: "fpval \<Rightarrow> fpval \<Rightarrow> fpval" where
  "fp_times (Fin a) (Fin b) = Fin (a * b)"
| "fp_times x y = NaN"

fun fp_divide :: "fpval \<Rightarrow> fpval \<Rightarrow> fpval" where
  "fp_divide (Fin a) (Fin b) = (if b = 0 then NaN else Fin (a / b))"
| "fp_divide x y = NaN"

definition exact_fpu :: fpu where
  "exact_fpu = \<lparr>narrow = (\<lambda>x. x), fmul = fp_times, fdiv = fp_divide,
                 dmul = fp_times, ddiv = fp_divide, i2f = (\<lambda>i. Fin (real_of_int i))\<rparr>"

text \<open>
  The vendor library takes the target of a move and the maximum velocity as \<^verbatim>\<open>int\<close>
  (\<^verbatim>\<open>CC_MoveToPosition(char const*, int)\<close>, \<^verbatim>\<open>CC_SetVelParams(char const*, int, int)\<close>
  in the Kinesis header, which is not among the sources), and the adapter passes a
  \<^verbatim>\<open>float\<close> and a \<^verbatim>\<open>double\<close>. The implicit conversion drops the fractional part; when
  the truncated value is no 32-bit \<^verbatim>\<open>int\<close>, or the value is an infinity or NaN, C++ leaves
  the conversion undefined, and the result here is \<open>None\<close>: nothing is said about what
  the vendor library receives.
\<close>

definition fp_to_int :: "fpval \<Rightarrow> int option" where
  "fp_to_int x =
     (case x of
        Fin r \<Rightarrow>
          (let t = (if 0 \<le> r then \<lfloor>r\<rfloor> else \<lceil>r\<rceil>)
           in if - 2147483648 \<le> t \<and> t \<le> 2147483647 then Some t else None)
      | PInf \<Rightarrow> None
      | NInf \<Rightarrow> None
      | NaN \<Rightarrow> None)"

text \<open>
  Modelled from the spec: the status codes \<^verbatim>\<open>DEVICE_OK\<close> and
  \<^verbatim>\<open>DEVICE_UNSUPPORTED_COMMAND\<close> are macros of the host framework's header
  (\<^verbatim>\<open>MMDeviceConstants.h\<close>), which is not among the sources. The specification calls them
  "success" and "a fixed unsupported status"; they are two different \<^verbatim>\<open>int\<close> codes, with
  the values Micro-Manager gives them.
\<close>

definition DEVICE_OK :: int where
  "DEVICE_OK = 0"

definition DEVICE_UNSUPPORTED_COMMAND :: int where
  "DEVICE_UNSUPPORTED_COMMAND = 11"

section \<open>What the adapter sends out\<close>

text \<open>
  The adapter logs through a string stream \<^verbatim>\<open>tmpMessage\<close>. What is streamed into it is
  kept as a list of items, not formatted.
\<close>

datatype item = Text string | Dbl fpval | Lng int

text \<open>
  The property types and the actions of a property callback are enumerations of the host
  framework (\<^verbatim>\<open>MM::PropertyType\<close>, \<^verbatim>\<open>MM::ActionType\<close>); the handlers tell
  \<^verbatim>\<open>BeforeGet\<close> and \<^verbatim>\<open>AfterSet\<close> from the rest. An \<open>action\<close> names the handler a
  \<^verbatim>\<open>CPropertyAction\<close> is bound to.
\<close>

datatype PropertyType = MM_String | MM_Float | MM_Integer

datatype ActionType =
  NoAction | BeforeGet | AfterSet | IsSequenceable | AfterLoadSequence
| StartSequence | StopSequence

datatype action =
  ActSerialNumber | ActChannelNumber | ActMinPosUm | ActMaxPosUm | ActPosition
| ActVelocity | ActHome

text \<open>
  Every call the adapter makes into the vendor library (\<^verbatim>\<open>CC_...\<close>) or into the host
  framework is recorded, in order, with the arguments as the callee receives them.
  \<open>PropSet\<close> is \<^verbatim>\<open>pProp->Set(...)\<close> inside a property callback.
\<close>

datatype call =
  CC_Close string
| CC_GetMotorVelocityLimits string
| CC_GetPosition string
| CC_RequestStatusBits string
| CC_GetStatusBits string
| Sleep nat
| CC_MoveToPosition string "int option"
| CC_Home string
| CC_CanHome string
| CC_SetVelParams string int "int option"
| OnStagePositionChanged fpval
| LogMessage "item list"
| CreateProperty string item PropertyType bool "action option"
| CreateFloatProperty string fpval bool "action option"
| SetPropertyLimits string fpval fpval
| PropSet item

section \<open>The adapter's state\<close>

text \<open>
  The members of \<^verbatim>\<open>class ThorlabsKinesisTCubeServo\<close> that some method reads or writes,
  under their names in the header without the trailing underscore (\<open>homed\<close> is
  \<^verbatim>\<open>homed_\<close>, \<open>minTravelUm\<close> is \<^verbatim>\<open>minTravelUm_\<close>), the global flag
  \<^verbatim>\<open>aptInitialized\<close>, and \<open>calls\<close>, the record of the calls made so far.
  \<open>curPosUm\<close>, \<open>pfPosition\<close>, \<open>newPosition\<close>, \<open>pfMinPos\<close> and \<open>pfMaxPos\<close> are
  \<^verbatim>\<open>float\<close> members, \<open>pfAccn\<close> is an \<^verbatim>\<open>int\<close>, the other numbers are \<^verbatim>\<open>double\<close>.
\<close>

record adapter =
  aptInitialized :: bool
  tmpMessage :: "item list"
  deviceName :: string
  chNumber :: int
  serialNumber :: string
  stepSizeUm :: fpval
  initialized :: bool
  busy :: bool
  homed :: bool
  minTravelUm :: fpval
  maxTravelUm :: fpval
  curPosUm :: fpval
  pfPosition :: fpval
  newPosition :: fpval
  pfMaxVel :: fpval
  pfAccn :: int
  pfMaxAccn :: fpval
  pfMinPos :: fpval
  pfMaxPos :: fpval
  posUm :: fpval
  calls :: "call list"

definition emit :: "call list \<Rightarrow> adapter \<Rightarrow> adapter" where
  "emit cs s = s\<lparr>calls := calls s @ cs\<rparr>"

text \<open>\<^verbatim>\<open>tmpMessage << x << y\<close>\<close>

definition put :: "item list \<Rightarrow> adapter \<Rightarrow> adapter" where
  "put xs s = s\<lparr>tmpMessage := tmpMessage s @ xs\<rparr>"

definition LogInit :: "adapter \<Rightarrow> adapter" where
  "LogInit s =
     s\<lparr>tmpMessage := [Text (deviceName s), Text ''-'', Text (serialNumber s), Text '' '']\<rparr>"

definition LogIt :: "adapter \<Rightarrow> adapter" where
  "LogIt s = LogInit (emit [LogMessage (tmpMessage s)] s)"

section \<open>Device and stage API\<close>

definition Shutdown :: "adapter \<Rightarrow> adapter \<times> int" where
  "Shutdown s =
     (let s1 = (if initialized s then s\<lparr>initialized := False\<rparr> else s);
          s2 = emit [CC_Close (serialNumber s1)] s1
      in (s2, DEVICE_OK))"

text \<open>
  \<^verbatim>\<open>GetLimits(double& min, double& max)\<close>: the result is the new state, the two values
  written through the references, and the status.
\<close>

definition GetLimits :: "adapter \<Rightarrow> adapter \<times> fpval \<times> fpval \<times> int" where
  "GetLimits s =
     (let s1 = LogIt (put [Text ''In GetLimits(). chNumber:'', Lng (chNumber s),
                           Text '' pfMinPos:'', Dbl (pfMinPos s),
                           Text '' pfMaxPos:'', Dbl (pfMaxPos s)] s)
      in (s1, minTravelUm s1, maxTravelUm s1, DEVICE_OK))"

definition SetLimits :: "fpval \<Rightarrow> fpval \<Rightarrow> adapter \<Rightarrow> adapter \<times> int" where
  "SetLimits mn mx s = (s\<lparr>minTravelUm := mn, maxTravelUm := mx\<rparr>, DEVICE_OK)"

text \<open>
  \<^verbatim>\<open>Busy()\<close>: \<open>status\<close> is the \<^verbatim>\<open>DWORD\<close> that \<^verbatim>\<open>CC_GetStatusBits\<close> answers; the two
  masked values are stored in \<^verbatim>\<open>unsigned short\<close> variables.
\<close>

definition Busy :: "32 word \<Rightarrow> adapter \<Rightarrow> adapter \<times> bool" where
  "Busy status s =
     (let s1 = emit [CC_RequestStatusBits (serialNumber s)] s;
          s2 = emit [Sleep 200] s1;
          s3 = emit [CC_GetStatusBits (serialNumber s2)] s2;
          isMovingCW = (ucast (status AND 0x00000010) :: 16 word);
          isMovingCCW = (ucast (status AND 0x00000020) :: 16 word);
          isBusy = (isMovingCW \<noteq> 0 \<or> isMovingCCW \<noteq> 0)
      in (s3, isBusy))"

text \<open>
  \<^verbatim>\<open>GetPositionUm(double& posUm)\<close>: \<open>pos\<close> is the \<^verbatim>\<open>int\<close> that \<^verbatim>\<open>CC_GetPosition\<close>
  answers. The result is the new state, the value written to \<^verbatim>\<open>posUm\<close>, and the status.
\<close>

definition GetPositionUm :: "fpu \<Rightarrow> int \<Rightarrow> adapter \<Rightarrow> adapter \<times> fpval \<times> int" where
  "GetPositionUm f pos s =
     (let s1 = emit [CC_GetPosition (serialNumber s)] s;
          s2 = s1\<lparr>pfPosition := i2f f pos\<rparr>;
          s3 = s2\<lparr>curPosUm := narrow f (dmul f (ddiv f (pfPosition s2) (Fin 34304)) (Fin 1000))\<rparr>;
          out = curPosUm s3;
          s4 = LogIt (put [Text ''GetPositionUm:'', Dbl (curPosUm s3)] s3)
      in (s4, out, DEVICE_OK))"

definition SetPositionUmFlag :: "fpu \<Rightarrow> fpval \<Rightarrow> int \<Rightarrow> adapter \<Rightarrow> adapter \<times> int" where
  "SetPositionUmFlag f p continuousFlag s =
     (let p1 = (if fp_less p (minTravelUm s) then minTravelUm s
                else if fp_less (maxTravelUm s) p then maxTravelUm s
                else p);
          s1 = s\<lparr>curPosUm := narrow f p1\<rparr>;
          s2 = s1\<lparr>newPosition := fmul f (fdiv f (curPosUm s1) (Fin 1000)) (Fin 34304)\<rparr>;
          s3 = emit [CC_MoveToPosition (serialNumber s2) (fp_to_int (newPosition s2))] s2;
          s4 = emit [OnStagePositionChanged (curPosUm s3)] s3;
          s5 = LogIt (put [Text ''SetPositionUm:'', Dbl p1,
                           Text '' continuousFlag:'', Lng continuousFlag] s4)
      in (s5, DEVICE_OK))"

definition SetPositionUm :: "fpu \<Rightarrow> fpval \<Rightarrow> adapter \<Rightarrow> adapter \<times> int" where
  "SetPositionUm f p s = SetPositionUmFlag f p 1 s"

definition SetPositionUmContinuous :: "fpu \<Rightarrow> fpval \<Rightarrow> adapter \<Rightarrow> adapter \<times> int" where
  "SetPositionUmContinuous f p s = SetPositionUmFlag f p 1 s"

definition SetOrigin :: "adapter \<Rightarrow> adapter \<times> int" where
  "SetOrigin s = (s, DEVICE_UNSUPPORTED_COMMAND)"

text \<open>
  \<^verbatim>\<open>SetPositionSteps(long steps)\<close> overwrites its own by-value parameter with
  \<^verbatim>\<open>(long)0.1\<close>, which is 0, and returns. \<^verbatim>\<open>GetPositionSteps(long& steps)\<close> reads the
  caller's variable into \<^verbatim>\<open>stepSizeUm_\<close> (a \<^verbatim>\<open>long\<close> is 32 bits on the Windows target,
  so the conversion to \<^verbatim>\<open>double\<close> is exact) and leaves the variable as it was.
\<close>

definition SetPositionSteps :: "int \<Rightarrow> adapter \<Rightarrow> adapter \<times> int" where
  "SetPositionSteps steps s = (let steps1 = \<lfloor>0.1 :: real\<rfloor> in (s, DEVICE_OK))"

definition GetPositionSteps :: "int \<Rightarrow> adapter \<Rightarrow> adapter \<times> int \<times> int" where
  "GetPositionSteps steps s = (s\<lparr>stepSizeUm := Fin (real_of_int steps)\<rparr>, steps, DEVICE_OK)"

definition GetName :: "adapter \<Rightarrow> adapter \<times> string" where
  "GetName s = (s, deviceName s)"

definition IsStageSequenceable :: "adapter \<Rightarrow> adapter \<times> bool \<times> int" where
  "IsStageSequenceable s = (s, False, DEVICE_OK)"

definition IsContinuousFocusDrive :: "adapter \<Rightarrow> adapter \<times> bool" where
  "IsContinuousFocusDrive s = (s, False)"

section \<open>Private methods\<close>

text \<open>
  \<^verbatim>\<open>Home()\<close>: \<open>canHome\<close> is what \<^verbatim>\<open>CC_CanHome\<close> answers when it is asked. The value
  \<^verbatim>\<open>CC_Home\<close> returns is dropped by the source.
\<close>

definition Home :: "bool \<Rightarrow> adapter \<Rightarrow> adapter \<times> int" where
  "Home canHome s =
     (let ret = DEVICE_OK;
          s1 = emit [CC_Home (serialNumber s)] s
      in if homed s1 then (s1, ret)
         else (let s2 = emit [CC_CanHome (serialNumber s1)] s1
               in if canHome then (s2\<lparr>homed := False\<rparr>, ret)
                  else (s2\<lparr>homed := True\<rparr>, ret)))"

text \<open>
  \<^verbatim>\<open>GetVelParam(double& vel)\<close>: \<open>maxVel\<close> and \<open>maxAccn\<close> are what
  \<^verbatim>\<open>CC_GetMotorVelocityLimits\<close> writes.
\<close>

definition GetVelParam :: "fpval \<Rightarrow> fpval \<Rightarrow> adapter \<Rightarrow> adapter \<times> fpval \<times> int" where
  "GetVelParam maxVel maxAccn s =
     (let s1 = emit [CC_GetMotorVelocityLimits (serialNumber s)] s;
          s2 = s1\<lparr>pfMaxVel := maxVel, pfMaxAccn := maxAccn\<rparr>
      in (s2, pfMaxVel s2, DEVICE_OK))"

definition SetVelParam :: "fpval \<Rightarrow> adapter \<Rightarrow> adapter \<times> int" where
  "SetVelParam vel s =
     (emit [CC_SetVelParams (serialNumber s) (pfAccn s) (fp_to_int (pfMaxVel s))] s,
      DEVICE_OK)"

section \<open>Action handlers\<close>

text \<open>
  A handler \<^verbatim>\<open>OnX(MM::PropertyBase* pProp, MM::ActionType eAct)\<close> takes the action and
  the value \<open>v\<close> that \<^verbatim>\<open>pProp->Get\<close> yields; what it writes with \<^verbatim>\<open>pProp->Set\<close> is
  recorded in \<open>calls\<close>.
\<close>

definition OnSerialNumber :: "ActionType \<Rightarrow> string \<Rightarrow> adapter \<Rightarrow> adapter \<times> int" where
  "OnSerialNumber eAct v s =
     (let s1 = (if eAct = BeforeGet then emit [PropSet (Text (serialNumber s))] s
                else if eAct = AfterSet then
                  (let sa = (if initialized s then s\<lparr>serialNumber := v\<rparr> else s)
                   in sa\<lparr>serialNumber := v\<rparr>)
                else s);
          s2 = (if aptInitialized s1 = True
                then put [Text ''Serial number set to '', Text (serialNumber s1)] s1
                else s1);
          s3 = LogIt s2
      in (s3, DEVICE_OK))"

definition OnChannelNumber :: "ActionType \<Rightarrow> int \<Rightarrow> adapter \<Rightarrow> adapter \<times> int" where
  "OnChannelNumber eAct v s =
     (let s1 = (if eAct = BeforeGet then emit [PropSet (Lng (chNumber s))] s
                else if eAct = AfterSet then
                  (let sa = (if initialized s then s\<lparr>chNumber := v\<rparr> else s)
                   in sa\<lparr>chNumber := v\<rparr>)
                else s);
          s2 = LogIt (put [Text ''Channel number set to '', Lng (chNumber s1)] s1)
      in (s2, DEVICE_OK))"

text \<open>
  The test both limit handlers apply to a limit \<open>x\<close>, before a get and after a set:
  above \<^verbatim>\<open>pfMaxPos * 1000\<close> it becomes that bound, else below \<^verbatim>\<open>pfMinPos * 1000\<close> it
  becomes that one.
\<close>

definition hw_clamp :: "fpu \<Rightarrow> adapter \<Rightarrow> fpval \<Rightarrow> fpval" where
  "hw_clamp f s x =
     (if fp_less (fmul f (pfMaxPos s) (Fin 1000)) x then fmul f (pfMaxPos s) (Fin 1000)
      else if fp_less x (fmul f (pfMinPos s) (Fin 1000)) then fmul f (pfMinPos s) (Fin 1000)
      else x)"

definition OnMinPosUm :: "fpu \<Rightarrow> ActionType \<Rightarrow> fpval \<Rightarrow> adapter \<Rightarrow> adapter \<times> int" where
  "OnMinPosUm f eAct v s =
     (let s1 = (if eAct = BeforeGet then
                  (let sa = s\<lparr>minTravelUm := hw_clamp f s (minTravelUm s)\<rparr>
                   in emit [PropSet (Dbl (minTravelUm sa))] sa)
                else if eAct = AfterSet then
                  (let sa = (if initialized s then s\<lparr>minTravelUm := v\<rparr> else s);
                       sb = sa\<lparr>minTravelUm := v\<rparr>
                   in sb\<lparr>minTravelUm := hw_clamp f sb (minTravelUm sb)\<rparr>)
                else s);
          s2 = LogIt (put [Text ''minTravelUm_ set to '', Dbl (minTravelUm s1),
                           Text '' pfMinPos:'', Dbl (pfMinPos s1),
                           Text '' pfMaxPos:'', Dbl (pfMaxPos s1)] s1)
      in (s2, DEVICE_OK))"

definition OnMaxPosUm :: "fpu \<Rightarrow> ActionType \<Rightarrow> fpval \<Rightarrow> adapter \<Rightarrow> adapter \<times> int" where
  "OnMaxPosUm f eAct v s =
     (let s1 = (if eAct = BeforeGet then
                  (let sa = s\<lparr>maxTravelUm := hw_clamp f s (maxTravelUm s)\<rparr>
                   in emit [PropSet (Dbl (maxTravelUm sa))] sa)
                else if eAct = AfterSet then
                  (let sa = (if initialized s then s\<lparr>maxTravelUm := v\<rparr> else s);
                       sb = sa\<lparr>maxTravelUm := v\<rparr>
                   in sb\<lparr>maxTravelUm := hw_clamp f sb (maxTravelUm sb)\<rparr>)
                else s);
          s2 = LogIt (put [Text ''maxTravelUm_ set to '', Dbl (maxTravelUm s1),
                           Text '' pfMinPos:'', Dbl (pfMinPos s1),
                           Text '' pfMaxPos:'', Dbl (pfMaxPos s1)] s1)
      in (s2, DEVICE_OK))"

definition OnPosition :: "fpu \<Rightarrow> ActionType \<Rightarrow> fpval \<Rightarrow> int \<Rightarrow> adapter \<Rightarrow> adapter \<times> int" where
  "OnPosition f eAct v pos s =
     (if eAct = BeforeGet then
        (let (s1, p, ret) = GetPositionUm f pos s
         in if ret \<noteq> DEVICE_OK then (s1, ret)
            else (emit [PropSet (Dbl p)] s1, DEVICE_OK))
      else if eAct = AfterSet then
        (let (s1, ret) = SetPositionUm f v s
         in if ret \<noteq> DEVICE_OK then (s1, ret) else (s1, DEVICE_OK))
      else (s, DEVICE_OK))"

definition OnVelocity :: "ActionType \<Rightarrow> fpval \<Rightarrow> fpval \<Rightarrow> fpval \<Rightarrow> adapter \<Rightarrow> adapter \<times> int" where
  "OnVelocity eAct v maxVel maxAccn s =
     (if eAct = BeforeGet then
        (let (s1, vel, ret) = GetVelParam maxVel maxAccn s
         in if ret \<noteq> DEVICE_OK then (s1, ret)
            else (emit [PropSet (Dbl vel)] s1, DEVICE_OK))
      else if eAct = AfterSet then
        (let (s1, ret) = SetVelParam v s
         in if ret \<noteq> DEVICE_OK then (s1, ret) else (s1, DEVICE_OK))
      else (s, DEVICE_OK))"

definition OnHome :: "ActionType \<Rightarrow> bool \<Rightarrow> adapter \<Rightarrow> adapter \<times> int" where
  "OnHome eAct canHome s =
     (if eAct = BeforeGet then
        (emit [PropSet (Lng (if homed s then 1 else 0))] s, DEVICE_OK)
      else if eAct = AfterSet then
        (let (s1, ret) = Home canHome s
         in if ret \<noteq> DEVICE_OK then (s1, ret) else (s1, DEVICE_OK))
      else (s, DEVICE_OK))"

section \<open>Initialisation\<close>

definition g_SerialNumberProp :: string where
  "g_SerialNumberProp = ''Serial Number''"

definition g_MaxVelProp :: string where
  "g_MaxVelProp = ''Maximum Velocity''"

definition g_MaxAccnProp :: string where
  "g_MaxAccnProp = ''Maximum Acceleration''"

definition g_MinPosProp :: string where
  "g_MinPosProp = ''Position Lower Limit (um)''"

definition g_MaxPosProp :: string where
  "g_MaxPosProp = ''Position Upper Limit (um)''"

definition g_Keyword_Position :: string where
  "g_Keyword_Position = ''Set position (um)''"

definition g_Keyword_Velocity :: string where
  "g_Keyword_Velocity = ''Velocity (mm/s)''"

definition g_Keyword_Home :: string where
  "g_Keyword_Home = ''Go Home''"

text \<open>
  Modelled from the spec: \<^verbatim>\<open>UpdateStatus()\<close> is a method of the host framework's device
  base class, which is not among the sources. The specification says of the framework
  that it enumerates the declared properties and invokes the action callback of a
  property that is read. Micro-Manager's \<^verbatim>\<open>UpdateStatus()\<close> does so for every property:
  it goes through the properties in the order of their names, calls the handler of each
  with \<^verbatim>\<open>BeforeGet\<close>, and stops at the first status other than \<^verbatim>\<open>DEVICE_OK\<close>
  (\<open>UpdateAll\<close>). At the call in \<^verbatim>\<open>Initialize()\<close> the properties with a handler are, in
  that order, \<^verbatim>\<open>Channel\<close>, \<^verbatim>\<open>Go Home\<close>, the lower and the upper position limit,
  \<^verbatim>\<open>Serial Number\<close>, \<^verbatim>\<open>Set position (um)\<close> and \<^verbatim>\<open>Velocity (mm/s)\<close>. \<open>pos\<close>, \<open>maxVel\<close>
  and \<open>maxAccn\<close> are what the vendor library answers to the position and the velocity
  handler; the value argument of a handler is read only after a set, so any value does.
\<close>

fun UpdateAll :: "(adapter \<Rightarrow> adapter \<times> int) list \<Rightarrow> adapter \<Rightarrow> adapter \<times> int" where
  "UpdateAll [] s = (s, DEVICE_OK)"
| "UpdateAll (h # hs) s =
     (let (s1, nRet) = h s
      in if nRet \<noteq> DEVICE_OK then (s1, nRet) else UpdateAll hs s1)"

definition UpdateStatus :: "fpu \<Rightarrow> int \<Rightarrow> fpval \<Rightarrow> fpval \<Rightarrow> adapter \<Rightarrow> adapter \<times> int" where
  "UpdateStatus f pos maxVel maxAccn s =
     UpdateAll
       [OnChannelNumber BeforeGet 0,
        OnHome BeforeGet False,
        OnMinPosUm f BeforeGet (Fin 0),
        OnMaxPosUm f BeforeGet (Fin 0),
        OnSerialNumber BeforeGet [],
        OnPosition f BeforeGet (Fin 0) pos,
        OnVelocity BeforeGet (Fin 0) maxVel maxAccn] s"

text \<open>
  \<^verbatim>\<open>Initialize()\<close>: \<open>maxVel\<close> and \<open>maxAccn\<close> are what \<^verbatim>\<open>CC_GetMotorVelocityLimits\<close>
  writes, \<open>pos\<close> is the \<^verbatim>\<open>int\<close> that \<^verbatim>\<open>CC_GetPosition\<close> answers (its conversion to the
  \<^verbatim>\<open>double\<close> member \<^verbatim>\<open>posUm_\<close> is exact); \<open>pos2\<close>, \<open>maxVel2\<close> and \<open>maxAccn2\<close> are the
  answers to the same questions asked again within \<^verbatim>\<open>UpdateStatus()\<close>. The first
  statement, \<^verbatim>\<open>GetLimits(minTravelUm_, maxTravelUm_)\<close>, writes the two limits onto
  themselves.
\<close>

definition Initialize ::
  "fpu \<Rightarrow> fpval \<Rightarrow> fpval \<Rightarrow> int \<Rightarrow> int \<Rightarrow> fpval \<Rightarrow> fpval \<Rightarrow> adapter \<Rightarrow> adapter \<times> int" where
  "Initialize f maxVel maxAccn pos pos2 maxVel2 maxAccn2 s =
     (let (s1, mn, mx, r) = GetLimits s;
          s2 = s1\<lparr>minTravelUm := mn, maxTravelUm := mx\<rparr>;
          s3 = LogInit (s2\<lparr>aptInitialized := True\<rparr>);
          s4 = LogIt (put [Text ''InitHWDevice()''] s3);
          s5 = (emit [CC_GetMotorVelocityLimits (serialNumber s4)] s4)
                 \<lparr>pfMaxVel := maxVel, pfMaxAccn := maxAccn\<rparr>;
          s6 = (emit [CC_GetPosition (serialNumber s5)] s5)\<lparr>posUm := Fin (real_of_int pos)\<rparr>;
          s7 = LogIt (put [Text ''pfMaxAccn:'', Dbl (pfMaxAccn s6),
                           Text '' pfMaxVel:'', Dbl (pfMaxVel s6)] s6);
          lo = fmul f (pfMinPos s7) (Fin 1000);
          hi = fmul f (pfMaxPos s7) (Fin 1000);
          s8 = emit
                [CreateProperty g_SerialNumberProp (Text (serialNumber s7)) MM_String True None,
                 CreateProperty g_MaxVelProp (Dbl (pfMaxVel s7)) MM_String True None,
                 CreateProperty g_MaxAccnProp (Dbl (pfMaxAccn s7)) MM_String True None,
                 CreateFloatProperty g_Keyword_Position (Fin 0) False (Some ActPosition),
                 SetPropertyLimits g_Keyword_Position (minTravelUm s7) (maxTravelUm s7),
                 CreateProperty g_Keyword_Velocity (Dbl (pfMaxVel s7)) MM_Float False
                   (Some ActVelocity),
                 CreateProperty g_Keyword_Home (Text ''0'') MM_Integer False (Some ActHome),
                 SetPropertyLimits g_Keyword_Home (Fin 0) (Fin 1),
                 CreateProperty g_MinPosProp (Dbl (minTravelUm s7)) MM_Float False
                   (Some ActMinPosUm),
                 SetPropertyLimits g_MinPosProp lo hi,
                 CreateProperty g_MaxPosProp (Dbl (maxTravelUm s7)) MM_Float False
                   (Some ActMaxPosUm),
                 SetPropertyLimits g_MaxPosProp lo hi] s7;
          (s9, ret) = UpdateStatus f pos2 maxVel2 maxAccn2 s8;
          s10 = LogIt (put [Text ''all done''] s9)
      in if ret \<noteq> DEVICE_OK then (s10, ret)
         else (s10\<lparr>initialized := True\<rparr>, DEVICE_OK))"

text \<open>
  The constructor: the member initialiser list, then \<^verbatim>\<open>init(deviceName, chNumber)\<close>.
  The members the constructor does not initialise (\<^verbatim>\<open>pfPosition\<close>, \<^verbatim>\<open>newPosition\<close>,
  \<^verbatim>\<open>pfMaxVel\<close>, \<^verbatim>\<open>pfAccn\<close>, \<^verbatim>\<open>pfMaxAccn\<close>, \<^verbatim>\<open>posUm_\<close>) hold whatever the memory
  holds: they are taken from the argument \<open>u\<close>, as are the global flag and the calls
  made before. Of \<^verbatim>\<open>init\<close> the assignments to members are modelled; the property
  registrations and the enumeration of the vendor's device list, which write no member,
  are not recorded in \<open>calls\<close>.
\<close>

definition init :: "fpu \<Rightarrow> string \<Rightarrow> int \<Rightarrow> adapter \<Rightarrow> adapter" where
  "init f name chNum s =
     (let s1 = s\<lparr>deviceName := name, chNumber := chNum\<rparr>;
          s2 = s1\<lparr>chNumber := 1\<rparr>
      in s2\<lparr>pfMinPos := narrow f (minTravelUm s2), pfMaxPos := narrow f (maxTravelUm s2)\<rparr>)"

definition construct :: "fpu \<Rightarrow> string \<Rightarrow> int \<Rightarrow> adapter \<Rightarrow> adapter" where
  "construct f name chNum u =
     init f name chNum
       (u\<lparr>tmpMessage := [], deviceName := ''ThorlabsKinesisTCubeServo'', chNumber := 1,
          serialNumber := [], stepSizeUm := Fin (3602879701896397 / 36028797018963968),
          initialized := False, busy := False, homed := False,
          minTravelUm := Fin 0, maxTravelUm := Fin 50000, curPosUm := Fin 0\<rparr>)"

text \<open>One content of the memory before construction, for concrete runs: all zero.\<close>

definition zeroed :: adapter where
  "zeroed = \<lparr>aptInitialized = False, tmpMessage = [], deviceName = [], chNumber = 0,
             serialNumber = [], stepSizeUm = Fin 0, initialized = False, busy = False,
             homed = False, minTravelUm = Fin 0, maxTravelUm = Fin 0, curPosUm = Fin 0,
             pfPosition = Fin 0, newPosition = Fin 0, pfMaxVel = Fin 0, pfAccn = 0,
             pfMaxAccn = Fin 0, pfMinPos = Fin 0, pfMaxPos = Fin 0, posUm = Fin 0,
             calls = []\<rparr>"

section \<open>Runs of the adapter\<close>

text \<open>
  An operation is a call of one method together with what the vendor library and the
  framework answer during that call. \<open>exec\<close> is the state after it, \<open>run\<close> the state
  after a sequence of operations.
\<close>

datatype operation =
  OpInitialize fpval fpval int int fpval fpval
| OpShutdown
| OpBusy "32 word"
| OpGetName
| OpGetPositionUm int
| OpSetPositionUm fpval
| OpSetPositionUmContinuous fpval
| OpSetOrigin
| OpSetPositionSteps int
| OpGetPositionSteps int
| OpGetLimits
| OpSetLimits fpval fpval
| OpIsStageSequenceable
| OpIsContinuousFocusDrive
| OpHome bool
| OpGetVelParam fpval fpval
| OpSetVelParam fpval
| OpOnSerialNumber ActionType string
| OpOnChannelNumber ActionType int
| OpOnMinPosUm ActionType fpval
| OpOnMaxPosUm ActionType fpval
| OpOnPosition ActionType fpval int
| OpOnVelocity ActionType fpval fpval fpval
| OpOnHome ActionType bool

fun exec :: "fpu \<Rightarrow> operation \<Rightarrow> adapter \<Rightarrow> adapter" where
  "exec f (OpInitialize maxVel maxAccn pos pos2 maxVel2 maxAccn2) s =
     fst (Initialize f maxVel maxAccn pos pos2 maxVel2 maxAccn2 s)"
| "exec f OpShutdown s = fst (Shutdown s)"
| "exec f (OpBusy status) s = fst (Busy status s)"
| "exec f OpGetName s = fst (GetName s)"
| "exec f (OpGetPositionUm pos) s = fst (GetPositionUm f pos s)"
| "exec f (OpSetPositionUm p) s = fst (SetPositionUm f p s)"
| "exec f (OpSetPositionUmContinuous p) s = fst (SetPositionUmContinuous f p s)"
| "exec f OpSetOrigin s = fst (SetOrigin s)"
| "exec f (OpSetPositionSteps steps) s = fst (SetPositionSteps steps s)"
| "exec f (OpGetPositionSteps steps) s = fst (GetPositionSteps steps s)"
| "exec f OpGetLimits s = fst (GetLimits s)"
| "exec f (OpSetLimits mn mx) s = fst (SetLimits mn mx s)"
| "exec f OpIsStageSequenceable s = fst (IsStageSequenceable s)"
| "exec f OpIsContinuousFocusDrive s = fst (IsContinuousFocusDrive s)"
| "exec f (OpHome canHome) s = fst (Home canHome s)"
| "exec f (OpGetVelParam maxVel maxAccn) s = fst (GetVelParam maxVel maxAccn s)"
| "exec f (OpSetVelParam vel) s = fst (SetVelParam vel s)"
| "exec f (OpOnSerialNumber eAct v) s = fst (OnSerialNumber eAct v s)"
| "exec f (OpOnChannelNumber eAct v) s = fst (OnChannelNumber eAct v s)"
| "exec f (OpOnMinPosUm eAct v) s = fst (OnMinPosUm f eAct v s)"
| "exec f (OpOnMaxPosUm eAct v) s = fst (OnMaxPosUm f eAct v s)"
| "exec f (OpOnPosition eAct v pos) s = fst (OnPosition f eAct v pos s)"
| "exec f (OpOnVelocity eAct v maxVel maxAccn) s = fst (OnVelocity eAct v maxVel maxAccn s)"
| "exec f (OpOnHome eAct canHome) s = fst (OnHome eAct canHome s)"

fun run :: "fpu \<Rightarrow> operation list \<Rightarrow> adapter \<Rightarrow> adapter" where
  "run f [] s = s"
| "run f (x # xs) s = run f xs (exec f x s)"

section \<open>Predicates of the properties\<close>





text \<open>
  The standard model of rounding: every conversion and every arithmetic operation on
  finite values gives the exact result times \<open>1 + d\<close> with \<open>\<bar>d\<bar> \<le> u\<close>. IEEE arithmetic
  obeys it, with \<^verbatim>\<open>u = 2^-24\<close> for \<^verbatim>\<open>float\<close>, as long as nothing overflows or underflows.
\<close>

definition rounds :: "real \<Rightarrow> fpu \<Rightarrow> bool" where
  "rounds u f =
     (0 \<le> u \<and>
      (\<forall>x. \<exists>d. \<bar>d\<bar> \<le> u \<and> narrow f (Fin x) = Fin (x * (1 + d))) \<and>
      (\<forall>x y. \<exists>d. \<bar>d\<bar> \<le> u \<and> fmul f (Fin x) (Fin y) = Fin (x * y * (1 + d))) \<and>
      (\<forall>x y. y \<noteq> 0 \<longrightarrow> (\<exists>d. \<bar>d\<bar> \<le> u \<and> fdiv f (Fin x) (Fin y) = Fin (x / y * (1 + d)))) \<and>
      (\<forall>x y. \<exists>d. \<bar>d\<bar> \<le> u \<and> dmul f (Fin x) (Fin y) = Fin (x * y * (1 + d))) \<and>
      (\<forall>x y. y \<noteq> 0 \<longrightarrow> (\<exists>d. \<bar>d\<bar> \<le> u \<and> ddiv f (Fin x) (Fin y) = Fin (x / y * (1 + d)))) \<and>
      (\<forall>i. \<exists>d. \<bar>d\<bar> \<le> u \<and> i2f f i = Fin (real_of_int i * (1 + d))))"

text \<open>
  The same, for the seven rounding steps of one round trip only: the three from the
  position \<open>x\<close> to its count in \<^verbatim>\<open>SetPositionUmFlag\<close> and the four from the count \<open>n\<close>
  back to a position in \<^verbatim>\<open>GetPositionUm\<close>. Nothing is asked of the arithmetic elsewhere,
  so that IEEE arithmetic obeys it whenever none of these seven steps overflows or
  underflows.
\<close>

definition steps_round :: "real \<Rightarrow> fpu \<Rightarrow> real \<Rightarrow> int \<Rightarrow> bool" where
  "steps_round u f x n =
     (0 \<le> u \<and>
      (\<exists>d1 d2 d3 d4 d5 d6 d7.
         \<bar>d1\<bar> \<le> u \<and> \<bar>d2\<bar> \<le> u \<and> \<bar>d3\<bar> \<le> u \<and> \<bar>d4\<bar> \<le> u \<and> \<bar>d5\<bar> \<le> u \<and> \<bar>d6\<bar> \<le> u \<and>
         \<bar>d7\<bar> \<le> u \<and>
         narrow f (Fin x) = Fin (x * (1 + d1)) \<and>
         fdiv f (Fin (x * (1 + d1))) (Fin 1000) = Fin (x * (1 + d1) / 1000 * (1 + d2)) \<and>
         fmul f (Fin (x * (1 + d1) / 1000 * (1 + d2))) (Fin 34304) =
           Fin (x * (1 + d1) / 1000 * (1 + d2) * 34304 * (1 + d3)) \<and>
         i2f f n = Fin (real_of_int n * (1 + d4)) \<and>
         ddiv f (Fin (real_of_int n * (1 + d4))) (Fin 34304) =
           Fin (real_of_int n * (1 + d4) / 34304 * (1 + d5)) \<and>
         dmul f (Fin (real_of_int n * (1 + d4) / 34304 * (1 + d5))) (Fin 1000) =
           Fin (real_of_int n * (1 + d4) / 34304 * (1 + d5) * 1000 * (1 + d6)) \<and>
         narrow f (Fin (real_of_int n * (1 + d4) / 34304 * (1 + d5) * 1000 * (1 + d6))) =
           Fin (real_of_int n * (1 + d4) / 34304 * (1 + d5) * 1000 * (1 + d6) * (1 + d7))))"

section \<open>Auxiliary facts\<close>

lemmas log_defs = emit_def put_def LogInit_def LogIt_def

lemmas plain_defs =
  GetName_def SetPositionUm_def SetPositionUmContinuous_def SetOrigin_def
  SetPositionSteps_def GetPositionSteps_def SetLimits_def IsStageSequenceable_def
  IsContinuousFocusDrive_def

lemma exact_fpu_sel:
  "narrow exact_fpu x = x" "fmul exact_fpu = fp_times" "fdiv exact_fpu = fp_divide"
  "dmul exact_fpu = fp_times" "ddiv exact_fpu = fp_divide"
  "i2f exact_fpu i = Fin (real_of_int i)"
  by (simp_all add: exact_fpu_def)

lemma fp_le_not_less: "fp_le a b \<Longrightarrow> \<not> fp_less b a"
  by (cases a; cases b) (auto simp: fp_le_def)




lemma construct_sel:
  "minTravelUm (construct f name chNum u) = Fin 0"
  "maxTravelUm (construct f name chNum u) = Fin 50000"
  "homed (construct f name chNum u) = False"
  "pfMinPos (construct f name chNum u) = narrow f (Fin 0)"
  "pfMaxPos (construct f name chNum u) = narrow f (Fin 50000)"
  by (simp_all add: construct_def init_def Let_def)

lemma emit_sel [simp]:
  "homed (emit cs s) = homed s" "minTravelUm (emit cs s) = minTravelUm s"
  "maxTravelUm (emit cs s) = maxTravelUm s" "pfMinPos (emit cs s) = pfMinPos s"
  "pfMaxPos (emit cs s) = pfMaxPos s"
  by (simp_all add: emit_def)

lemma put_sel [simp]:
  "homed (put xs s) = homed s" "minTravelUm (put xs s) = minTravelUm s"
  "maxTravelUm (put xs s) = maxTravelUm s" "pfMinPos (put xs s) = pfMinPos s"
  "pfMaxPos (put xs s) = pfMaxPos s"
  by (simp_all add: put_def)

lemma LogInit_sel [simp]:
  "homed (LogInit s) = homed s" "minTravelUm (LogInit s) = minTravelUm s"
  "maxTravelUm (LogInit s) = maxTravelUm s" "pfMinPos (LogInit s) = pfMinPos s"
  "pfMaxPos (LogInit s) = pfMaxPos s"
  by (simp_all add: LogInit_def)

lemma LogIt_sel [simp]:
  "homed (LogIt s) = homed s" "minTravelUm (LogIt s) = minTravelUm s"
  "maxTravelUm (LogIt s) = maxTravelUm s" "pfMinPos (LogIt s) = pfMinPos s"
  "pfMaxPos (LogIt s) = pfMaxPos s"
  by (simp_all add: LogIt_def)

lemma device_api_sel:
  "homed (fst (Shutdown s)) = homed s"
  "minTravelUm (fst (Shutdown s)) = minTravelUm s"
  "maxTravelUm (fst (Shutdown s)) = maxTravelUm s"
  "pfMinPos (fst (Shutdown s)) = pfMinPos s"
  "pfMaxPos (fst (Shutdown s)) = pfMaxPos s"
  "homed (fst (Busy status s)) = homed s"
  "minTravelUm (fst (Busy status s)) = minTravelUm s"
  "maxTravelUm (fst (Busy status s)) = maxTravelUm s"
  "pfMinPos (fst (Busy status s)) = pfMinPos s"
  "pfMaxPos (fst (Busy status s)) = pfMaxPos s"
  "homed (fst (GetPositionUm f pos s)) = homed s"
  "minTravelUm (fst (GetPositionUm f pos s)) = minTravelUm s"
  "maxTravelUm (fst (GetPositionUm f pos s)) = maxTravelUm s"
  "pfMinPos (fst (GetPositionUm f pos s)) = pfMinPos s"
  "pfMaxPos (fst (GetPositionUm f pos s)) = pfMaxPos s"
  "homed (fst (SetPositionUmFlag f p flag s)) = homed s"
  "minTravelUm (fst (SetPositionUmFlag f p flag s)) = minTravelUm s"
  "maxTravelUm (fst (SetPositionUmFlag f p flag s)) = maxTravelUm s"
  "pfMinPos (fst (SetPositionUmFlag f p flag s)) = pfMinPos s"
  "pfMaxPos (fst (SetPositionUmFlag f p flag s)) = pfMaxPos s"
  "homed (fst (GetLimits s)) = homed s"
  "minTravelUm (fst (GetLimits s)) = minTravelUm s"
  "maxTravelUm (fst (GetLimits s)) = maxTravelUm s"
  "pfMinPos (fst (GetLimits s)) = pfMinPos s"
  "pfMaxPos (fst (GetLimits s)) = pfMaxPos s"
  "homed (fst (GetVelParam maxVel maxAccn s)) = homed s"
  "minTravelUm (fst (GetVelParam maxVel maxAccn s)) = minTravelUm s"
  "maxTravelUm (fst (GetVelParam maxVel maxAccn s)) = maxTravelUm s"
  "pfMinPos (fst (GetVelParam maxVel maxAccn s)) = pfMinPos s"
  "pfMaxPos (fst (GetVelParam maxVel maxAccn s)) = pfMaxPos s"
  "homed (fst (SetVelParam vel s)) = homed s"
  "minTravelUm (fst (SetVelParam vel s)) = minTravelUm s"
  "maxTravelUm (fst (SetVelParam vel s)) = maxTravelUm s"
  "pfMinPos (fst (SetVelParam vel s)) = pfMinPos s"
  "pfMaxPos (fst (SetVelParam vel s)) = pfMaxPos s"
  by (simp_all add: Shutdown_def Busy_def GetPositionUm_def SetPositionUmFlag_def
      GetLimits_def GetVelParam_def SetVelParam_def Let_def)

lemma Home_sel:
  "minTravelUm (fst (Home canHome s)) = minTravelUm s"
  "maxTravelUm (fst (Home canHome s)) = maxTravelUm s"
  "pfMinPos (fst (Home canHome s)) = pfMinPos s"
  "pfMaxPos (fst (Home canHome s)) = pfMaxPos s"
  by (simp_all add: Home_def Let_def)

lemma Home_keeps_homed: "homed s \<Longrightarrow> homed (fst (Home canHome s))"
  by (simp add: Home_def Let_def)

lemma handler_sel:
  "homed (fst (OnSerialNumber eAct n s)) = homed s"
  "minTravelUm (fst (OnSerialNumber eAct n s)) = minTravelUm s"
  "maxTravelUm (fst (OnSerialNumber eAct n s)) = maxTravelUm s"
  "pfMinPos (fst (OnSerialNumber eAct n s)) = pfMinPos s"
  "pfMaxPos (fst (OnSerialNumber eAct n s)) = pfMaxPos s"
  "homed (fst (OnChannelNumber eAct c s)) = homed s"
  "minTravelUm (fst (OnChannelNumber eAct c s)) = minTravelUm s"
  "maxTravelUm (fst (OnChannelNumber eAct c s)) = maxTravelUm s"
  "pfMinPos (fst (OnChannelNumber eAct c s)) = pfMinPos s"
  "pfMaxPos (fst (OnChannelNumber eAct c s)) = pfMaxPos s"
  "homed (fst (OnMinPosUm f eAct v s)) = homed s"
  "maxTravelUm (fst (OnMinPosUm f eAct v s)) = maxTravelUm s"
  "pfMinPos (fst (OnMinPosUm f eAct v s)) = pfMinPos s"
  "pfMaxPos (fst (OnMinPosUm f eAct v s)) = pfMaxPos s"
  "homed (fst (OnMaxPosUm f eAct v s)) = homed s"
  "minTravelUm (fst (OnMaxPosUm f eAct v s)) = minTravelUm s"
  "pfMinPos (fst (OnMaxPosUm f eAct v s)) = pfMinPos s"
  "pfMaxPos (fst (OnMaxPosUm f eAct v s)) = pfMaxPos s"
  "homed (fst (OnPosition f eAct v pos s)) = homed s"
  "minTravelUm (fst (OnPosition f eAct v pos s)) = minTravelUm s"
  "maxTravelUm (fst (OnPosition f eAct v pos s)) = maxTravelUm s"
  "pfMinPos (fst (OnPosition f eAct v pos s)) = pfMinPos s"
  "pfMaxPos (fst (OnPosition f eAct v pos s)) = pfMaxPos s"
  "homed (fst (OnVelocity eAct v maxVel maxAccn s)) = homed s"
  "minTravelUm (fst (OnVelocity eAct v maxVel maxAccn s)) = minTravelUm s"
  "maxTravelUm (fst (OnVelocity eAct v maxVel maxAccn s)) = maxTravelUm s"
  "pfMinPos (fst (OnVelocity eAct v maxVel maxAccn s)) = pfMinPos s"
  "pfMaxPos (fst (OnVelocity eAct v maxVel maxAccn s)) = pfMaxPos s"
  "minTravelUm (fst (OnHome eAct canHome s)) = minTravelUm s"
  "maxTravelUm (fst (OnHome eAct canHome s)) = maxTravelUm s"
  "pfMinPos (fst (OnHome eAct canHome s)) = pfMinPos s"
  "pfMaxPos (fst (OnHome eAct canHome s)) = pfMaxPos s"
  by (simp_all add: OnSerialNumber_def OnChannelNumber_def OnMinPosUm_def OnMaxPosUm_def
      OnPosition_def OnVelocity_def OnHome_def SetPositionUm_def device_api_sel Home_sel
      Let_def split_def)

lemma OnHome_keeps_homed: "homed s \<Longrightarrow> homed (fst (OnHome eAct canHome s))"
  by (simp add: OnHome_def Home_keeps_homed split_def Let_def)

lemma limit_handler_writes:
  "minTravelUm (fst (OnMinPosUm f eAct v s)) =
     (if eAct = BeforeGet then hw_clamp f s (minTravelUm s)
      else if eAct = AfterSet then hw_clamp f s v else minTravelUm s)"
  "maxTravelUm (fst (OnMaxPosUm f eAct v s)) =
     (if eAct = BeforeGet then hw_clamp f s (maxTravelUm s)
      else if eAct = AfterSet then hw_clamp f s v else maxTravelUm s)"
  by (simp_all add: OnMinPosUm_def OnMaxPosUm_def hw_clamp_def Let_def)

lemma handler_status:
  "snd (OnSerialNumber eAct n s) = DEVICE_OK"
  "snd (OnChannelNumber eAct c s) = DEVICE_OK"
  "snd (OnMinPosUm f eAct v s) = DEVICE_OK"
  "snd (OnMaxPosUm f eAct v s) = DEVICE_OK"
  "snd (OnPosition f eAct v pos s) = DEVICE_OK"
  "snd (OnVelocity eAct v maxVel maxAccn s) = DEVICE_OK"
  "snd (OnHome eAct canHome s) = DEVICE_OK"
  by (simp_all add: OnSerialNumber_def OnChannelNumber_def OnMinPosUm_def OnMaxPosUm_def
      OnPosition_def OnVelocity_def OnHome_def SetPositionUm_def SetPositionUmFlag_def
      GetPositionUm_def GetVelParam_def SetVelParam_def Home_def Let_def split_def)

lemma UpdateAll_ok:
  "(\<forall>h\<in>set hs. \<forall>a. snd (h a) = DEVICE_OK) \<Longrightarrow>
   UpdateAll hs s = (foldl (\<lambda>a h. fst (h a)) s hs, DEVICE_OK)"
  by (induction hs arbitrary: s) (simp_all add: split_def Let_def)

lemma UpdateStatus_eq:
  "UpdateStatus f pos maxVel maxAccn s =
     (fst (OnVelocity BeforeGet (Fin 0) maxVel maxAccn
        (fst (OnPosition f BeforeGet (Fin 0) pos
          (fst (OnSerialNumber BeforeGet []
            (fst (OnMaxPosUm f BeforeGet (Fin 0)
              (fst (OnMinPosUm f BeforeGet (Fin 0)
                (fst (OnHome BeforeGet False
                  (fst (OnChannelNumber BeforeGet 0 s))))))))))))), DEVICE_OK)"
  unfolding UpdateStatus_def
  by (subst UpdateAll_ok) (simp_all add: handler_status)

lemma OnHome_get_keeps_homed: "homed (fst (OnHome BeforeGet canHome s)) = homed s"
  by (simp add: OnHome_def)

lemma UpdateStatus_sel:
  "snd (UpdateStatus f pos maxVel maxAccn s) = DEVICE_OK"
  "homed (fst (UpdateStatus f pos maxVel maxAccn s)) = homed s"
  "pfMinPos (fst (UpdateStatus f pos maxVel maxAccn s)) = pfMinPos s"
  "pfMaxPos (fst (UpdateStatus f pos maxVel maxAccn s)) = pfMaxPos s"
  "minTravelUm (fst (UpdateStatus f pos maxVel maxAccn s)) = hw_clamp f s (minTravelUm s)"
  "maxTravelUm (fst (UpdateStatus f pos maxVel maxAccn s)) = hw_clamp f s (maxTravelUm s)"
  by (simp_all add: UpdateStatus_eq handler_sel limit_handler_writes hw_clamp_def
      OnHome_get_keeps_homed)


lemma Initialize_sel:
  "homed (fst (Initialize f maxVel maxAccn pos pos2 maxVel2 maxAccn2 s)) = homed s"
  "pfMinPos (fst (Initialize f maxVel maxAccn pos pos2 maxVel2 maxAccn2 s)) = pfMinPos s"
  "pfMaxPos (fst (Initialize f maxVel maxAccn pos pos2 maxVel2 maxAccn2 s)) = pfMaxPos s"
  "minTravelUm (fst (Initialize f maxVel maxAccn pos pos2 maxVel2 maxAccn2 s)) =
     hw_clamp f s (minTravelUm s)"
  "maxTravelUm (fst (Initialize f maxVel maxAccn pos pos2 maxVel2 maxAccn2 s)) =
     hw_clamp f s (maxTravelUm s)"
  by (simp_all add: Initialize_def GetLimits_def Let_def split_def UpdateStatus_sel hw_clamp_def)

lemma exec_keeps_homed: "homed s \<Longrightarrow> homed (exec f x s)"
  by (cases x)
    (simp_all add: Initialize_sel device_api_sel handler_sel Home_keeps_homed
      OnHome_keeps_homed plain_defs)

lemma run_keeps_homed: "homed s \<Longrightarrow> homed (run f xs s)"
  by (induction xs arbitrary: s) (simp_all add: exec_keeps_homed)

lemma exec_keeps_hw_range:
  "pfMinPos (exec f x s) = pfMinPos s \<and> pfMaxPos (exec f x s) = pfMaxPos s"
  by (cases x)
    (simp_all add: Initialize_sel device_api_sel handler_sel Home_sel plain_defs)









lemma rel_step:
  fixes a d u e :: real
  assumes "\<bar>a - 1\<bar> \<le> e" and "\<bar>d\<bar> \<le> u"
  shows "\<bar>a * (1 + d) - 1\<bar> \<le> (1 + e) * (1 + u) - 1"
proof -
  have e0: "0 \<le> e" using assms(1) by linarith
  have d1: "\<bar>1 + d\<bar> \<le> 1 + u" using assms(2) by linarith
  have "a * (1 + d) - 1 = (a - 1) * (1 + d) + d" by (simp add: algebra_simps)
  then have "\<bar>a * (1 + d) - 1\<bar> \<le> \<bar>(a - 1) * (1 + d)\<bar> + \<bar>d\<bar>"
    by (metis abs_triangle_ineq)
  also have "\<dots> = \<bar>a - 1\<bar> * \<bar>1 + d\<bar> + \<bar>d\<bar>" by (simp add: abs_mult)
  also have "\<dots> \<le> e * (1 + u) + u"
    using assms d1 e0 by (intro add_mono mult_mono) auto
  finally show ?thesis by (simp add: algebra_simps)
qed

lemma rel_pow:
  fixes a d u :: real
  assumes "\<bar>a - 1\<bar> \<le> (1 + u) ^ k - 1" and "\<bar>d\<bar> \<le> u"
  shows "\<bar>a * (1 + d) - 1\<bar> \<le> (1 + u) ^ Suc k - 1"
  using rel_step [OF assms] by (simp add: mult.commute)

lemma rel_one: "\<bar>(1::real) - 1\<bar> \<le> (1 + u) ^ 0 - 1"
  by simp

lemma fp_to_int_near:
  assumes "fp_to_int (Fin r) = Some n"
  shows "\<bar>real_of_int n - r\<bar> < 1"
proof (cases "0 \<le> r")
  case True
  with assms have "n = \<lfloor>r\<rfloor>" by (simp add: fp_to_int_def Let_def split: if_splits)
  then show ?thesis by linarith
next
  case False
  with assms have "n = \<lceil>r\<rceil>" by (simp add: fp_to_int_def Let_def split: if_splits)
  then show ?thesis by linarith
qed

lemma exact_fpu_rounds: "rounds 0 exact_fpu"
  by (simp add: rounds_def exact_fpu_sel)

lemma rounds_steps_round:
  assumes R: "rounds u f"
  shows "steps_round u f x n"
proof -
  from R have u0: "0 \<le> u" by (simp add: rounds_def)
  from R obtain d1 where d1: "\<bar>d1\<bar> \<le> u" "narrow f (Fin x) = Fin (x * (1 + d1))"
    unfolding rounds_def by blast
  from R obtain d2 where d2: "\<bar>d2\<bar> \<le> u"
    "fdiv f (Fin (x * (1 + d1))) (Fin 1000) = Fin (x * (1 + d1) / 1000 * (1 + d2))"
    unfolding rounds_def by (metis zero_neq_numeral)
  from R obtain d3 where d3: "\<bar>d3\<bar> \<le> u"
    "fmul f (Fin (x * (1 + d1) / 1000 * (1 + d2))) (Fin 34304) =
       Fin (x * (1 + d1) / 1000 * (1 + d2) * 34304 * (1 + d3))"
    unfolding rounds_def by blast
  from R obtain d4 where d4: "\<bar>d4\<bar> \<le> u" "i2f f n = Fin (real_of_int n * (1 + d4))"
    unfolding rounds_def by blast
  from R obtain d5 where d5: "\<bar>d5\<bar> \<le> u"
    "ddiv f (Fin (real_of_int n * (1 + d4))) (Fin 34304) =
       Fin (real_of_int n * (1 + d4) / 34304 * (1 + d5))"
    unfolding rounds_def by (metis zero_neq_numeral)
  from R obtain d6 where d6: "\<bar>d6\<bar> \<le> u"
    "dmul f (Fin (real_of_int n * (1 + d4) / 34304 * (1 + d5))) (Fin 1000) =
       Fin (real_of_int n * (1 + d4) / 34304 * (1 + d5) * 1000 * (1 + d6))"
    unfolding rounds_def by blast
  from R obtain d7 where d7: "\<bar>d7\<bar> \<le> u"
    "narrow f (Fin (real_of_int n * (1 + d4) / 34304 * (1 + d5) * 1000 * (1 + d6))) =
       Fin (real_of_int n * (1 + d4) / 34304 * (1 + d5) * 1000 * (1 + d6) * (1 + d7))"
    unfolding rounds_def by blast
  from u0 d1 d2 d3 d4 d5 d6 d7 show ?thesis
    unfolding steps_round_def by blast
qed

lemma move_calls:
  assumes "SetPositionUm f p s = (s', r)"
  shows "\<exists>m. calls s' = calls s @ [CC_MoveToPosition (serialNumber s) (fp_to_int (newPosition s')),
                                   OnStagePositionChanged (curPosUm s'), LogMessage m]"
  using assms by (auto simp: SetPositionUm_def SetPositionUmFlag_def Let_def log_defs)

section \<open>Properties\<close>

subsection \<open>Moving the stage\<close>

text \<open>
  C1. \<^verbatim>\<open>SetPositionUm(p)\<close> returns \<^verbatim>\<open>DEVICE_OK\<close>, and the position it moves to is the
  lower limit when \<open>p\<close> is below it, the upper limit when \<open>p\<close> is above the upper limit
  and not below the lower one, and \<open>p\<close> when \<open>p\<close> is below or above neither (so whenever
  \<open>min \<le> p \<le> max\<close>). The cached position \<^verbatim>\<open>curPosUm_\<close>, a \<^verbatim>\<open>float\<close>, is that position
  converted to \<^verbatim>\<open>float\<close>, and the host is told \<^verbatim>\<open>curPosUm_\<close>. The target handed to
  \<^verbatim>\<open>CC_MoveToPosition\<close> is \<^verbatim>\<open>curPosUm_ / 1000 * 34304\<close> with its fractional part
  dropped by the conversion to the \<^verbatim>\<open>int\<close> parameter, where that conversion is defined.
\<close>

theorem SetPositionUm_clamps:
  assumes "SetPositionUm f p s = (s', r)"
  shows "r = DEVICE_OK \<and>
    (fp_less p (minTravelUm s) \<longrightarrow> curPosUm s' = narrow f (minTravelUm s)) \<and>
    (\<not> fp_less p (minTravelUm s) \<and> fp_less (maxTravelUm s) p \<longrightarrow>
       curPosUm s' = narrow f (maxTravelUm s)) \<and>
    (\<not> fp_less p (minTravelUm s) \<and> \<not> fp_less (maxTravelUm s) p \<longrightarrow>
       curPosUm s' = narrow f p) \<and>
    (fp_le (minTravelUm s) p \<and> fp_le p (maxTravelUm s) \<longrightarrow> curPosUm s' = narrow f p) \<and>
    newPosition s' = fmul f (fdiv f (curPosUm s') (Fin 1000)) (Fin 34304) \<and>
    (\<exists>m. calls s' = calls s @ [CC_MoveToPosition (serialNumber s) (fp_to_int (newPosition s')),
                               OnStagePositionChanged (curPosUm s'), LogMessage m])"
  using assms
  by (auto simp: SetPositionUm_def SetPositionUmFlag_def Let_def log_defs dest: fp_le_not_less)

text \<open>
  On a new adapter (limits 0 and 50000) a request for 60000 micrometres moves to 50000,
  that is to 1715200 counts.
\<close>

theorem SetPositionUm_clamps_witness:
  "curPosUm (fst (SetPositionUm exact_fpu (Fin 60000) (construct exact_fpu ''TDC001'' 1 zeroed)))
     = Fin 50000 \<and>
   newPosition (fst (SetPositionUm exact_fpu (Fin 60000) (construct exact_fpu ''TDC001'' 1 zeroed)))
     = Fin 1715200 \<and>
   fp_to_int (Fin 1715200) = Some 1715200 \<and>
   snd (SetPositionUm exact_fpu (Fin 60000) (construct exact_fpu ''TDC001'' 1 zeroed)) = DEVICE_OK"
proof -
  let ?s = "construct exact_fpu ''TDC001'' 1 zeroed"
  let ?r = "SetPositionUm exact_fpu (Fin 60000) ?s"
  have h: "?r = (fst ?r, snd ?r)" by simp
  from SetPositionUm_clamps [OF h] show ?thesis
    by (simp add: construct_sel exact_fpu_sel fp_to_int_def)
qed

text \<open>
  After \<^verbatim>\<open>SetLimits(1000, 0)\<close> the limits are 1000 and 0. A request for 500 is above the
  upper limit, and the adapter moves to 1000 (34304 counts), the lower limit, not to the
  upper one: the test against the lower limit comes first. Every operation on the way
  is exact in \<^verbatim>\<open>float\<close>.
\<close>

theorem SetPositionUm_inverted_limits_counterexample:
  "fp_less (maxTravelUm (fst (SetLimits (Fin 1000) (Fin 0) (construct exact_fpu ''TDC001'' 1 zeroed))))
           (Fin 500) \<and>
   curPosUm (fst (SetPositionUm exact_fpu (Fin 500)
     (fst (SetLimits (Fin 1000) (Fin 0) (construct exact_fpu ''TDC001'' 1 zeroed))))) = Fin 1000 \<and>
   curPosUm (fst (SetPositionUm exact_fpu (Fin 500)
     (fst (SetLimits (Fin 1000) (Fin 0) (construct exact_fpu ''TDC001'' 1 zeroed)))))
     \<noteq> maxTravelUm (fst (SetLimits (Fin 1000) (Fin 0) (construct exact_fpu ''TDC001'' 1 zeroed))) \<and>
   calls (fst (SetPositionUm exact_fpu (Fin 500)
     (fst (SetLimits (Fin 1000) (Fin 0) (construct exact_fpu ''TDC001'' 1 zeroed))))) =
     calls zeroed @
     [CC_MoveToPosition [] (Some 34304), OnStagePositionChanged (Fin 1000),
      LogMessage [Text ''SetPositionUm:'', Dbl (Fin 1000), Text '' continuousFlag:'', Lng 1]]"
  by (simp add: SetPositionUm_def SetPositionUmFlag_def SetLimits_def construct_def init_def
      Let_def log_defs exact_fpu_sel fp_to_int_def zeroed_def)

text \<open>
  C2. A finite position \<open>x\<close> within the limits is sent to the stage as
  \<^verbatim>\<open>x / 1000 * 34304\<close> counts with the fractional part dropped, and a stage that stands
  at that count is read back as \<^verbatim>\<open>counts / 34304 * 1000\<close>. When each of the seven
  rounding steps on the way has a relative error of at most \<open>u\<close> (\<open>steps_round\<close>, which
  the standard model \<open>rounds\<close> implies) and the count fits an \<^verbatim>\<open>int\<close>, the position read
  back differs from \<open>x\<close> by at most one encoder count, \<open>1000 / 34304\<close> micrometres
  (grown by four roundings), plus the rounding of the seven operations on the way:
  \<open>1000 / 34304 * (1 + u)\<^sup>4 + \<bar>x\<bar> * ((1 + u)\<^sup>7 - 1)\<close>.
\<close>

theorem roundtrip_within_one_count:
  assumes R: "steps_round u f x n"
    and lo: "fp_le (minTravelUm s) (Fin x)" and hi: "fp_le (Fin x) (maxTravelUm s)"
    and mv: "SetPositionUm f (Fin x) s = (s1, r1)"
    and cnt: "fp_to_int (newPosition s1) = Some n"
    and rd: "GetPositionUm f n s1 = (s2, out, r2)"
  shows "(\<exists>m. calls s1 = calls s @ [CC_MoveToPosition (serialNumber s) (Some n),
                                   OnStagePositionChanged (curPosUm s1), LogMessage m]) \<and>
         (\<exists>y. out = Fin y \<and>
              \<bar>y - x\<bar> \<le> 1000 / 34304 * (1 + u) ^ 4 + \<bar>x\<bar> * ((1 + u) ^ 7 - 1))"
proof -
  from R have u0: "0 \<le> u" by (simp add: steps_round_def)
  from R obtain d1 d2 d3 d4 d5 d6 d7 where
    d1: "\<bar>d1\<bar> \<le> u" "narrow f (Fin x) = Fin (x * (1 + d1))" and
    d2: "\<bar>d2\<bar> \<le> u"
      "fdiv f (Fin (x * (1 + d1))) (Fin 1000) = Fin (x * (1 + d1) / 1000 * (1 + d2))" and
    d3: "\<bar>d3\<bar> \<le> u"
      "fmul f (Fin (x * (1 + d1) / 1000 * (1 + d2))) (Fin 34304) =
         Fin (x * (1 + d1) / 1000 * (1 + d2) * 34304 * (1 + d3))" and
    d4: "\<bar>d4\<bar> \<le> u" "i2f f n = Fin (real_of_int n * (1 + d4))" and
    d5: "\<bar>d5\<bar> \<le> u"
      "ddiv f (Fin (real_of_int n * (1 + d4))) (Fin 34304) =
         Fin (real_of_int n * (1 + d4) / 34304 * (1 + d5))" and
    d6: "\<bar>d6\<bar> \<le> u"
      "dmul f (Fin (real_of_int n * (1 + d4) / 34304 * (1 + d5))) (Fin 1000) =
         Fin (real_of_int n * (1 + d4) / 34304 * (1 + d5) * 1000 * (1 + d6))" and
    d7: "\<bar>d7\<bar> \<le> u"
      "narrow f (Fin (real_of_int n * (1 + d4) / 34304 * (1 + d5) * 1000 * (1 + d6))) =
         Fin (real_of_int n * (1 + d4) / 34304 * (1 + d5) * 1000 * (1 + d6) * (1 + d7))"
    unfolding steps_round_def by blast
  let ?c = "x * (1 + d1) / 1000 * (1 + d2) * 34304 * (1 + d3)"
  from lo hi have nl: "\<not> fp_less (Fin x) (minTravelUm s)" "\<not> fp_less (maxTravelUm s) (Fin x)"
    by (simp_all add: fp_le_not_less)
  from mv nl
  have "newPosition s1 = fmul f (fdiv f (narrow f (Fin x)) (Fin 1000)) (Fin 34304)"
    by (auto simp: SetPositionUm_def SetPositionUmFlag_def Let_def log_defs)
  then have s1: "newPosition s1 = Fin ?c"
    by (simp only: d1 d2 d3)
  from move_calls [OF mv] cnt
  have sent: "\<exists>m. calls s1 = calls s @ [CC_MoveToPosition (serialNumber s) (Some n),
                                   OnStagePositionChanged (curPosUm s1), LogMessage m]"
    by simp
  from cnt s1 have near: "\<bar>real_of_int n - ?c\<bar> < 1" by (simp add: fp_to_int_near)
  let ?y = "real_of_int n * (1 + d4) / 34304 * (1 + d5) * 1000 * (1 + d6) * (1 + d7)"
  from rd
  have "out = narrow f (dmul f (ddiv f (i2f f n) (Fin 34304)) (Fin 1000))"
    by (auto simp: GetPositionUm_def Let_def log_defs)
  then have out: "out = Fin ?y"
    by (simp only: d4 d5 d6 d7)
  define P3 where "P3 = 1 * (1 + d1) * (1 + d2) * (1 + d3)"
  define P4 where "P4 = 1 * (1 + d4) * (1 + d5) * (1 + d6) * (1 + d7)"
  have b4: "\<bar>P4 - 1\<bar> \<le> (1 + u) ^ 4 - 1"
    unfolding P4_def
    using rel_pow [OF rel_pow [OF rel_pow [OF rel_pow [OF rel_one d4(1)] d5(1)] d6(1)] d7(1)]
    by (simp add: eval_nat_numeral)
  have b7: "\<bar>P3 * P4 - 1\<bar> \<le> (1 + u) ^ 7 - 1"
  proof -
    have "P3 * P4 = 1 * (1 + d1) * (1 + d2) * (1 + d3) * (1 + d4) * (1 + d5) * (1 + d6) * (1 + d7)"
      by (simp add: P3_def P4_def)
    with rel_pow [OF rel_pow [OF rel_pow [OF rel_pow [OF rel_pow [OF rel_pow [OF rel_pow
        [OF rel_one d1(1)] d2(1)] d3(1)] d4(1)] d5(1)] d6(1)] d7(1)]
    show ?thesis by (simp add: eval_nat_numeral)
  qed
  from b4 have a4: "\<bar>P4\<bar> \<le> (1 + u) ^ 4" by linarith
  define c where "c = ?c"
  define y where "y = ?y"
  define k :: real where "k = 1000 / 34304"
  have k0: "0 \<le> k" by (simp add: k_def)
  have c: "c * k = x * P3" by (simp add: c_def P3_def k_def)
  have y: "y = real_of_int n * k * P4" by (simp add: y_def P4_def k_def)
  from near have near': "\<bar>real_of_int n - c\<bar> \<le> 1" by (simp add: c_def)
  have "y - x = (real_of_int n * k - c * k) * P4 + x * (P3 * P4 - 1)"
    unfolding y c by (simp add: algebra_simps)
  also have "\<dots> = (real_of_int n - c) * k * P4 + x * (P3 * P4 - 1)"
    by (simp add: algebra_simps)
  finally have "\<bar>y - x\<bar> \<le> \<bar>(real_of_int n - c) * k * P4\<bar> + \<bar>x * (P3 * P4 - 1)\<bar>"
    by (metis abs_triangle_ineq)
  also have "\<dots> = \<bar>real_of_int n - c\<bar> * k * \<bar>P4\<bar> + \<bar>x\<bar> * \<bar>P3 * P4 - 1\<bar>"
    using k0 by (simp add: abs_mult)
  also have "\<dots> \<le> 1 * k * (1 + u) ^ 4 + \<bar>x\<bar> * ((1 + u) ^ 7 - 1)"
    using near' a4 b7 u0 k0 by (intro add_mono mult_mono) auto
  finally have "\<bar>?y - x\<bar> \<le> 1000 / 34304 * (1 + u) ^ 4 + \<bar>x\<bar> * ((1 + u) ^ 7 - 1)"
    by (simp add: y_def k_def)
  with out sent show ?thesis by blast
qed

text \<open>Without rounding, 1000 micrometres are 34304 counts and are read back as 1000.\<close>

theorem roundtrip_within_one_count_witness:
  "steps_round 0 exact_fpu 1000 34304 \<and>
   fp_to_int (newPosition (fst (SetPositionUm exact_fpu (Fin 1000)
      (construct exact_fpu ''TDC001'' 1 zeroed)))) = Some 34304 \<and>
   (\<exists>y. fst (snd (GetPositionUm exact_fpu 34304 (fst (SetPositionUm exact_fpu (Fin 1000)
            (construct exact_fpu ''TDC001'' 1 zeroed))))) = Fin y \<and>
        \<bar>y - 1000\<bar> \<le> 1000 / 34304 * (1 + 0) ^ 4 + \<bar>1000\<bar> * ((1 + 0) ^ 7 - 1))"
proof -
  let ?s = "construct exact_fpu ''TDC001'' 1 zeroed"
  let ?m = "SetPositionUm exact_fpu (Fin 1000) ?s"
  let ?g = "GetPositionUm exact_fpu 34304 (fst ?m)"
  have R: "steps_round 0 exact_fpu 1000 34304"
    using exact_fpu_rounds by (rule rounds_steps_round)
  have lo: "fp_le (minTravelUm ?s) (Fin 1000)" and hi: "fp_le (Fin 1000) (maxTravelUm ?s)"
    by (simp_all add: construct_sel fp_le_def)
  have mv: "?m = (fst ?m, snd ?m)" by simp
  have cnt: "fp_to_int (newPosition (fst ?m)) = Some 34304"
    by (simp add: SetPositionUm_def SetPositionUmFlag_def Let_def log_defs construct_sel
        exact_fpu_sel fp_to_int_def)
  have rd: "?g = (fst ?g, fst (snd ?g), snd (snd ?g))" by simp
  from roundtrip_within_one_count [OF R lo hi mv cnt rd] R cnt show ?thesis
    by blast
qed

text \<open>
  \<open>125 / 128\<close> micrometres, within the limits of a new adapter: the three steps to
  counts are exact in \<^verbatim>\<open>float\<close> and give 33.5; the stage is sent 33, and 33 counts
  are read back as \<open>4125 / 4288\<close> micrometres (up to the rounding of the way back, of the
  order of \<open>10\<^sup>-\<^sup>7\<close>), more than a hundredth of a micrometre below the request.
\<close>

theorem roundtrip_truncates_counterexample:
  "fp_le (minTravelUm (construct exact_fpu ''TDC001'' 1 zeroed)) (Fin (125 / 128)) \<and>
   fp_le (Fin (125 / 128)) (maxTravelUm (construct exact_fpu ''TDC001'' 1 zeroed)) \<and>
   newPosition (fst (SetPositionUm exact_fpu (Fin (125 / 128))
      (construct exact_fpu ''TDC001'' 1 zeroed))) = Fin (67 / 2) \<and>
   calls (fst (SetPositionUm exact_fpu (Fin (125 / 128))
      (construct exact_fpu ''TDC001'' 1 zeroed))) =
     [CC_MoveToPosition [] (Some 33), OnStagePositionChanged (Fin (125 / 128)),
      LogMessage [Text ''SetPositionUm:'', Dbl (Fin (125 / 128)),
                  Text '' continuousFlag:'', Lng 1]] \<and>
   fst (snd (GetPositionUm exact_fpu 33 (fst (SetPositionUm exact_fpu (Fin (125 / 128))
      (construct exact_fpu ''TDC001'' 1 zeroed))))) = Fin (4125 / 4288) \<and>
   (1 / 100 :: real) < 125 / 128 - 4125 / 4288"
  by (simp add: SetPositionUm_def SetPositionUmFlag_def GetPositionUm_def construct_def init_def
      Let_def log_defs exact_fpu_sel fp_to_int_def fp_le_def zeroed_def)

text \<open>
  C9. \<^verbatim>\<open>SetPositionUmContinuous(p)\<close> and \<^verbatim>\<open>SetPositionUm(p)\<close> give the same state (the
  calls made are part of it) and the same status, from every state.
\<close>

theorem SetPositionUmContinuous_eq_SetPositionUm:
  "SetPositionUmContinuous f p s = SetPositionUm f p s"
  by (simp add: SetPositionUmContinuous_def SetPositionUm_def)

subsection \<open>Homing\<close>

text \<open>
  C3. \<^verbatim>\<open>Home()\<close> returns \<^verbatim>\<open>DEVICE_OK\<close> from every state. It sends the home command
  and, when the homed flag is false on entry and only then, asks \<^verbatim>\<open>CC_CanHome\<close>.
  Whenever the device has been asked, so has reported, the flag afterwards is true if
  the report was "cannot home" and false if it was "can home". When the device has not
  been asked, the flag was true and is true.
\<close>

theorem Home_flag_follows_CanHome:
  "snd (Home canHome s) = DEVICE_OK \<and>
   calls (fst (Home canHome s)) =
     calls s @ (if homed s then [CC_Home (serialNumber s)]
                else [CC_Home (serialNumber s), CC_CanHome (serialNumber s)]) \<and>
   (CC_CanHome (serialNumber s) \<in> set (drop (length (calls s)) (calls (fst (Home canHome s))))
      \<longrightarrow> (\<not> canHome \<longrightarrow> homed (fst (Home canHome s))) \<and>
          (canHome \<longrightarrow> \<not> homed (fst (Home canHome s)))) \<and>
   (CC_CanHome (serialNumber s) \<notin> set (drop (length (calls s)) (calls (fst (Home canHome s))))
      \<longrightarrow> homed s \<and> homed (fst (Home canHome s)))"
  by (simp add: Home_def Let_def emit_def)

text \<open>
  A new adapter is not homed: the device is asked, and both answers are followed. After
  the answer "cannot home" the flag is true, and the next \<^verbatim>\<open>Home()\<close> does not ask.
\<close>

theorem Home_flag_follows_CanHome_witness:
  "CC_CanHome [] \<in> set (drop (length (calls (construct exact_fpu ''TDC001'' 1 zeroed)))
      (calls (fst (Home False (construct exact_fpu ''TDC001'' 1 zeroed))))) \<and>
   homed (fst (Home False (construct exact_fpu ''TDC001'' 1 zeroed))) \<and>
   CC_CanHome [] \<in> set (drop (length (calls (construct exact_fpu ''TDC001'' 1 zeroed)))
      (calls (fst (Home True (construct exact_fpu ''TDC001'' 1 zeroed))))) \<and>
   \<not> homed (fst (Home True (construct exact_fpu ''TDC001'' 1 zeroed))) \<and>
   CC_CanHome [] \<notin> set (drop (length (calls (fst (Home False (construct exact_fpu ''TDC001'' 1 zeroed)))))
      (calls (fst (Home True (fst (Home False (construct exact_fpu ''TDC001'' 1 zeroed))))))) \<and>
   homed (fst (Home True (fst (Home False (construct exact_fpu ''TDC001'' 1 zeroed)))))"
proof -
  let ?s = "construct exact_fpu ''TDC001'' 1 zeroed"
  have sn: "serialNumber ?s = []" "homed ?s = False" "calls ?s = []"
    by (simp_all add: construct_def init_def Let_def zeroed_def)
  have sn1: "serialNumber (fst (Home False ?s)) = []" "homed (fst (Home False ?s))"
    "calls (fst (Home False ?s)) = [CC_Home [], CC_CanHome []]"
    by (simp_all add: Home_def Let_def emit_def sn)
  from Home_flag_follows_CanHome [of False ?s] Home_flag_follows_CanHome [of True ?s]
    Home_flag_follows_CanHome [of True "fst (Home False ?s)"]
  show ?thesis
    by (simp add: sn sn1)
qed

text \<open>
  C10. Once the homed flag is true it stays true through every sequence of operations
  (the methods of the stage API, the private methods and the action handlers, with any
  answers of the device); and \<^verbatim>\<open>Home()\<close> called with the flag true sends the home
  command and returns, the state otherwise untouched.
\<close>

theorem homed_never_reset:
  "homed s \<Longrightarrow>
   homed (run f xs s) \<and> Home canHome s = (emit [CC_Home (serialNumber s)] s, DEVICE_OK)"
  by (simp add: run_keeps_homed Home_def Let_def)

theorem homed_never_reset_witness:
  "homed (fst (Home False (construct exact_fpu ''TDC001'' 1 zeroed))) \<and>
   homed (run exact_fpu [OpHome True, OpOnHome AfterSet True,
            OpInitialize (Fin 2) (Fin 1) 0 0 (Fin 2) (Fin 1), OpShutdown]
            (fst (Home False (construct exact_fpu ''TDC001'' 1 zeroed))))"
proof -
  have h: "homed (fst (Home False (construct exact_fpu ''TDC001'' 1 zeroed)))"
    by (simp add: Home_def Let_def construct_sel)
  from homed_never_reset [OF h, of exact_fpu
      "[OpHome True, OpOnHome AfterSet True, OpInitialize (Fin 2) (Fin 1) 0 0 (Fin 2) (Fin 1),
        OpShutdown]" True]
  have "homed (run exact_fpu [OpHome True, OpOnHome AfterSet True,
          OpInitialize (Fin 2) (Fin 1) 0 0 (Fin 2) (Fin 1), OpShutdown]
          (fst (Home False (construct exact_fpu ''TDC001'' 1 zeroed))))"
    by (rule conjunct1)
  with h show ?thesis by (rule conjI)
qed

subsection \<open>Travel limits\<close>

text \<open>
  C4. \<^verbatim>\<open>SetLimits(a, b)\<close> returns \<^verbatim>\<open>DEVICE_OK\<close>, and \<^verbatim>\<open>GetLimits\<close> called next
  writes exactly \<open>a\<close> and \<open>b\<close> and returns \<^verbatim>\<open>DEVICE_OK\<close>, for all \<open>a\<close> and \<open>b\<close>
  (infinities and NaN included).
\<close>

theorem SetLimits_GetLimits:
  "snd (SetLimits a b s) = DEVICE_OK \<and>
   snd (GetLimits (fst (SetLimits a b s))) = (a, b, DEVICE_OK)"
  by (simp add: SetLimits_def GetLimits_def Let_def log_defs)




subsection \<open>Shutdown, unsupported operations, velocity\<close>

text \<open>
  C6. \<^verbatim>\<open>Shutdown()\<close> returns \<^verbatim>\<open>DEVICE_OK\<close> and leaves \<^verbatim>\<open>initialized_\<close> false, from any
  state; so does a second \<^verbatim>\<open>Shutdown()\<close> right after it.
\<close>

theorem Shutdown_ok_uninitialized:
  "snd (Shutdown s) = DEVICE_OK \<and> initialized (fst (Shutdown s)) = False \<and>
   snd (Shutdown (fst (Shutdown s))) = DEVICE_OK \<and>
   initialized (fst (Shutdown (fst (Shutdown s)))) = False"
  by (simp add: Shutdown_def emit_def Let_def)

text \<open>
  C7. Of the three operations the adapter does not support, only \<^verbatim>\<open>SetOrigin()\<close>
  returns \<^verbatim>\<open>DEVICE_UNSUPPORTED_COMMAND\<close>. On a new adapter \<^verbatim>\<open>SetPositionSteps(100)\<close>
  changes nothing and returns \<^verbatim>\<open>DEVICE_OK\<close>, a different code; \<^verbatim>\<open>GetPositionSteps\<close>, given
  a variable that holds 100, returns \<^verbatim>\<open>DEVICE_OK\<close> too, leaves the variable at 100 and
  stores 100 into \<^verbatim>\<open>stepSizeUm_\<close>.
\<close>

theorem steps_operations_return_ok:
  "SetPositionSteps 100 (construct exact_fpu ''TDC001'' 1 zeroed)
     = (construct exact_fpu ''TDC001'' 1 zeroed, DEVICE_OK) \<and>
   snd (GetPositionSteps 100 (construct exact_fpu ''TDC001'' 1 zeroed)) = (100, DEVICE_OK) \<and>
   stepSizeUm (fst (GetPositionSteps 100 (construct exact_fpu ''TDC001'' 1 zeroed))) = Fin 100 \<and>
   snd (SetOrigin (construct exact_fpu ''TDC001'' 1 zeroed)) = DEVICE_UNSUPPORTED_COMMAND \<and>
   DEVICE_OK \<noteq> DEVICE_UNSUPPORTED_COMMAND"
  by (simp add: SetPositionSteps_def GetPositionSteps_def SetOrigin_def DEVICE_OK_def
      DEVICE_UNSUPPORTED_COMMAND_def)

text \<open>
  C8. \<^verbatim>\<open>SetVelParam(vel)\<close> does not depend on \<open>vel\<close>: for any two arguments it gives
  the same state and the same status, \<^verbatim>\<open>DEVICE_OK\<close>, and the one call it adds is
  \<^verbatim>\<open>CC_SetVelParams\<close> with the cached \<^verbatim>\<open>pfAccn\<close> and the cached \<^verbatim>\<open>pfMaxVel\<close>, the
  latter converted to the \<^verbatim>\<open>int\<close> the vendor library takes.
\<close>

theorem SetVelParam_ignores_vel:
  "SetVelParam vel1 s = SetVelParam vel2 s \<and>
   SetVelParam vel1 s =
     (s\<lparr>calls := calls s @
          [CC_SetVelParams (serialNumber s) (pfAccn s) (fp_to_int (pfMaxVel s))]\<rparr>,
      DEVICE_OK)"
  by (simp add: SetVelParam_def emit_def)

end
